theory Spec2Isabelle
  imports Main
begin

section \<open>Python values and their text\<close>

text \<open>
  The security service receives JSON bodies and inspects their Python text \<open>str(...)\<close>.
  A parsed JSON value is a \<open>json\<close>; a float carries the text Python prints for it.
  Python strings are modelled as \<open>string\<close>, one \<open>char\<close> per code point, so the model
  covers the code points below 256.
\<close>

datatype json =
    JNull
  | JBool bool
  | JInt int
  | JFloat string
  | JStr string
  | JList "json list"
  | JDict "(string \<times> json) list"

fun is_prefix :: "string \<Rightarrow> string \<Rightarrow> bool" where
  "is_prefix [] ys = True"
| "is_prefix (x # xs) [] = False"
| "is_prefix (x # xs) (y # ys) = (x = y \<and> is_prefix xs ys)"

text \<open>Python's \<open>needle in hay\<close> on strings: \<open>needle\<close> occurs as a contiguous run.\<close>

fun py_in :: "string \<Rightarrow> string \<Rightarrow> bool" where
  "py_in needle [] = is_prefix needle []"
| "py_in needle (c # cs) = (is_prefix needle (c # cs) \<or> py_in needle cs)"

text \<open>\<open>str.lower()\<close> on code points below 256: A-Z and the Latin-1 capitals move by 32.\<close>

definition lower_char :: "char \<Rightarrow> char" where
  "lower_char c =
     (let n = (of_char c :: nat)
      in if (65 \<le> n \<and> n \<le> 90) \<or> (192 \<le> n \<and> n \<le> 222 \<and> n \<noteq> 215)
         then char_of (n + 32) else c)"

definition py_lower :: "string \<Rightarrow> string" where
  "py_lower s = map lower_char s"

fun py_join :: "string \<Rightarrow> string list \<Rightarrow> string" where
  "py_join sep [] = []"
| "py_join sep [x] = x"
| "py_join sep (x # y # xs) = x @ sep @ py_join sep (y # xs)"

definition hex_digit :: "nat \<Rightarrow> char" where
  "hex_digit d = (if d < 10 then char_of (48 + d) else char_of (87 + d))"

function digits :: "nat \<Rightarrow> string" where
  "digits n = (if n < 10 then [char_of (48 + n)] else digits (n div 10) @ [char_of (48 + n mod 10)])"
  by pat_completeness auto
termination
  by (relation "measure id") auto

declare digits.simps [simp del]

definition int_repr :: "int \<Rightarrow> string" where
  "int_repr i = (if i < 0 then CHR ''-'' # digits (nat (- i)) else digits (nat i))"

text \<open>
  \<open>repr\<close> of a string: single quotes unless the text has a single quote and no double
  quote; the quote in use and the backslash are escaped, tab, newline and return are
  written \<open>\t\<close>, \<open>\n\<close>, \<open>\r\<close>, and every other unprintable code point as \<open>\xhh\<close>.
\<close>

definition printable :: "char \<Rightarrow> bool" where
  "printable c =
     (let n = (of_char c :: nat)
      in (32 \<le> n \<and> n < 127) \<or> (161 \<le> n \<and> n \<noteq> 173))"

definition repr_char :: "char \<Rightarrow> char \<Rightarrow> string" where
  "repr_char quote c =
     (if c = quote \<or> c = CHR 0x5C then [CHR 0x5C, c]
      else if c = CHR 0x09 then [CHR 0x5C, CHR ''t'']
      else if c = CHR 0x0A then [CHR 0x5C, CHR ''n'']
      else if c = CHR 0x0D then [CHR 0x5C, CHR ''r'']
      else if printable c then [c]
      else [CHR 0x5C, CHR ''x'', hex_digit (of_char c div 16), hex_digit (of_char c mod 16)])"

definition str_repr :: "string \<Rightarrow> string" where
  "str_repr s =
     (let quote = (if CHR 0x27 \<in> set s \<and> CHR 0x22 \<notin> set s then CHR 0x22 else CHR 0x27)
      in [quote] @ concat (map (repr_char quote) s) @ [quote])"

fun py_repr :: "json \<Rightarrow> string" where
  "py_repr JNull = ''None''"
| "py_repr (JBool b) = (if b then ''True'' else ''False'')"
| "py_repr (JInt i) = int_repr i"
| "py_repr (JFloat txt) = txt"
| "py_repr (JStr s) = str_repr s"
| "py_repr (JList xs) = ''['' @ py_join '', '' (map py_repr xs) @ '']''"
| "py_repr (JDict kvs) =
     ''{'' @ py_join '', '' (map (\<lambda>(k, v). str_repr k @ '': '' @ py_repr v) kvs) @ ''}''"

text \<open>\<open>str(x)\<close>: a string is its own text, everything else prints as its \<open>repr\<close>.\<close>

fun py_str :: "json \<Rightarrow> string" where
  "py_str (JStr s) = s"
| "py_str j = py_repr j"

section \<open>Threat detection\<close>

record threat_analysis =
  threats_detected :: "string list"
  risk_score :: int
  action :: string

text \<open>
  \<open>SecurityService.detect_threats\<close>: three checks on the text of the request data, run
  one after the other, each appending its tag and adding its weight.
\<close>

definition detect_threats :: "json \<Rightarrow> threat_analysis" where
  "detect_threats request_data =
     (let threats0 = ([] :: string list);
          score0 = (0 :: int);
          (threats1, score1) =
            (if py_in ''script'' (py_lower (py_str request_data))
             then (threats0 @ [''potential_xss''], score0 + 30)
             else (threats0, score0));
          (threats2, score2) =
            (if py_in ''union'' (py_lower (py_str request_data))
                \<and> py_in ''select'' (py_lower (py_str request_data))
             then (threats1 @ [''potential_sql_injection''], score1 + 50)
             else (threats1, score1));
          (threats3, score3) =
            (if int (length (py_str request_data)) > 10000
             then (threats2 @ [''oversized_request''], score2 + 20)
             else (threats2, score2))
      in \<lparr> threats_detected = threats3,
           risk_score = score3,
           action = (if score3 > 70 then ''block''
                     else if score3 > 30 then ''monitor'' else ''allow'') \<rparr>)"

section \<open>Service state\<close>

text \<open>
  Timestamps are counted in microseconds. The source stores them as ISO texts written by
  \<open>isoformat\<close> and reads \<open>expires_at\<close> back with \<open>fromisoformat\<close>, which returns the
  same instant; the model keeps the count, also where a timestamp is put into a JSON body.
  Every reading of \<open>datetime.now()\<close> and every token drawn from \<open>secrets\<close> is an
  argument of the function that takes it, in the order of the source.
\<close>

record session =
  session_id :: string
  user_id :: string
  permissions :: "string list"
  created_at :: int
  expires_at :: int
  last_activity :: int
  ip_address :: string
  user_agent :: string

record audit_event =
  timestamp :: int
  event_type :: string
  details :: json
  event_ip_address :: string
  event_user_agent :: string

record security_policies =
  password_min_length :: int
  session_timeout :: int
  max_login_attempts :: int
  require_2fa :: bool
  encryption_algorithm :: string

record security_service =
  sessions :: "string \<rightharpoonup> session"
  audit_log :: "audit_event list"
  policies :: security_policies

text \<open>The Flask request as far as the service reads it.\<close>

record request =
  remote_addr :: string
  header_user_agent :: "string option"
  header_authorization :: "string option"

datatype error = ValueError string

definition init :: security_service where
  "init = \<lparr> sessions = Map.empty,
            audit_log = [],
            policies = \<lparr> password_min_length = 8,
                         session_timeout = 3600,
                         max_login_attempts = 5,
                         require_2fa = False,
                         encryption_algorithm = ''AES-256'' \<rparr> \<rparr>"

definition origin_ip :: "request option \<Rightarrow> string" where
  "origin_ip req = (case req of None \<Rightarrow> ''unknown'' | Some r \<Rightarrow> remote_addr r)"

definition origin_agent :: "request option \<Rightarrow> string" where
  "origin_agent req =
     (case req of
        None \<Rightarrow> ''unknown''
      | Some r \<Rightarrow> (case header_user_agent r of None \<Rightarrow> ''unknown'' | Some a \<Rightarrow> a))"

subsection \<open>Audit log\<close>

definition make_event :: "int \<Rightarrow> request option \<Rightarrow> string \<Rightarrow> json \<Rightarrow> audit_event" where
  "make_event now req ty d =
     \<lparr> timestamp = now, event_type = ty, details = d,
       event_ip_address = origin_ip req, event_user_agent = origin_agent req \<rparr>"

definition log_security_event ::
  "int \<Rightarrow> request option \<Rightarrow> string \<Rightarrow> json \<Rightarrow> security_service \<Rightarrow> security_service" where
  "log_security_event now req ty d st =
     st\<lparr> audit_log := audit_log st @ [make_event now req ty d] \<rparr>"

subsection \<open>Sessions\<close>

text \<open>
  \<open>create_session\<close> reads the clock three times for the session and once more inside
  \<open>log_security_event\<close>. \<open>permissions or ["read"]\<close> replaces an omitted (\<open>None\<close>) or empty
  list.
\<close>

definition create_session ::
  "string \<Rightarrow> int \<Rightarrow> int \<Rightarrow> int \<Rightarrow> int \<Rightarrow> request option \<Rightarrow> string \<Rightarrow> string list option
     \<Rightarrow> security_service \<Rightarrow> session \<times> security_service" where
  "create_session token now1 now2 now3 now4 req uid perms st =
     (let session_data =
            \<lparr> session_id = token,
              user_id = uid,
              permissions = (case perms of None \<Rightarrow> [''read'']
                             | Some ps \<Rightarrow> if ps = [] then [''read''] else ps),
              created_at = now1,
              expires_at = now2 + session_timeout (policies st) * 1000000,
              last_activity = now3,
              ip_address = origin_ip req,
              user_agent = origin_agent req \<rparr>;
          st1 = st\<lparr> sessions := (sessions st)(token \<mapsto> session_data) \<rparr>;
          st2 = log_security_event now4 req ''session_created''
                  (JDict [(''user_id'', JStr uid), (''session_id'', JStr token)]) st1
      in (session_data, st2))"

text \<open>
  \<open>validate_session\<close> raises \<open>ValueError\<close> with one of two messages; the deletion of an
  expired entry stays in the state the exception leaves behind. The clock is read once for
  the expiry test and once for the refresh.
\<close>

definition validate_session ::
  "int \<Rightarrow> int \<Rightarrow> string \<Rightarrow> security_service \<Rightarrow> (error + session) \<times> security_service" where
  "validate_session now1 now2 sid st =
     (case sessions st sid of
        None \<Rightarrow> (Inl (ValueError ''Invalid session''), st)
      | Some s \<Rightarrow>
          if now1 > expires_at s
          then (Inl (ValueError ''Session expired''),
                st\<lparr> sessions := (sessions st)(sid := None) \<rparr>)
          else (let s' = s\<lparr> last_activity := now2 \<rparr>
                in (Inr s', st\<lparr> sessions := (sessions st)(sid \<mapsto> s') \<rparr>)))"

definition check_permissions ::
  "int \<Rightarrow> int \<Rightarrow> string \<Rightarrow> string \<Rightarrow> security_service \<Rightarrow> bool \<times> security_service" where
  "check_permissions now1 now2 sid required st =
     (case validate_session now1 now2 sid st of
        (Inr s, st') \<Rightarrow> (required \<in> set (permissions s) \<or> ''admin'' \<in> set (permissions s), st')
      | (Inl e, st') \<Rightarrow> (False, st'))"

section \<open>Request handlers\<close>

text \<open>
  A handler returns the value handed to \<open>jsonify\<close> with the HTTP status (200 where the
  source gives none), and the service state it leaves.
\<close>

type_synonym response = "json \<times> nat"

text \<open>
  The body of \<open>/auth/login\<close>: \<open>None\<close> for an absent key. For \<open>permissions\<close> the key
  may be absent, or present with \<open>null\<close> or with a list.
\<close>

record login_data =
  username :: "string option"
  password :: "string option"
  requested_permissions :: "string list option option"

definition login ::
  "string \<Rightarrow> int \<Rightarrow> int \<Rightarrow> int \<Rightarrow> int \<Rightarrow> request \<Rightarrow> login_data option \<Rightarrow> security_service
     \<Rightarrow> response \<times> security_service" where
  "login token now1 now2 now3 now4 req data st =
     (case data of
        None \<Rightarrow> ((JDict [(''error'', JStr ''Missing username or password'')], 400), st)
      | Some d \<Rightarrow>
          (case (username d, password d) of
             (Some uname, Some pw) \<Rightarrow>
               if int (length pw) \<ge> password_min_length (policies st)
               then (let perms = (case requested_permissions d of
                                    None \<Rightarrow> Some [''read'', ''write'']
                                  | Some p \<Rightarrow> p);
                         (session, st') =
                           create_session token now1 now2 now3 now4 (Some req) uname perms st
                     in ((JDict [(''success'', JBool True),
                                 (''session_id'', JStr (session_id session)),
                                 (''expires_at'', JInt (expires_at session)),
                                 (''permissions'', JList (map JStr (permissions session)))],
                          200), st'))
               else ((JDict [(''error'', JStr ''Authentication failed'')], 401),
                     log_security_event now1 (Some req) ''login_failed''
                       (JDict [(''username'', JStr uname), (''reason'', JStr ''weak_password'')])
                       st)
           | _ \<Rightarrow> ((JDict [(''error'', JStr ''Missing username or password'')], 400), st)))"

text \<open>\<open>s.replace('Bearer ', '')\<close>: every occurrence is removed, scanning from the left.\<close>

function strip_bearer :: "string \<Rightarrow> string" where
  "strip_bearer [] = []"
| "strip_bearer (c # cs) =
     (if is_prefix ''Bearer '' (c # cs) then strip_bearer (drop 7 (c # cs))
      else c # strip_bearer cs)"
  by pat_completeness auto
termination
  by (relation "measure length") auto

text \<open>
  \<open>data.get('session_id') or request.headers.get('Authorization', '').replace(...)\<close>:
  an absent or empty id in the body falls back to the header.
\<close>

definition request_session_id :: "string option \<Rightarrow> request \<Rightarrow> string" where
  "request_session_id body_id req =
     (case body_id of
        Some sid \<Rightarrow> if sid \<noteq> [] then sid
                    else strip_bearer (case header_authorization req of None \<Rightarrow> [] | Some h \<Rightarrow> h)
      | None \<Rightarrow> strip_bearer (case header_authorization req of None \<Rightarrow> [] | Some h \<Rightarrow> h))"

definition logout ::
  "int \<Rightarrow> request \<Rightarrow> string option \<Rightarrow> security_service \<Rightarrow> response \<times> security_service" where
  "logout now req body_id st =
     (let sid = request_session_id body_id req
      in case sessions st sid of
           Some s \<Rightarrow>
             (let uid = user_id s;
                  st1 = st\<lparr> sessions := (sessions st)(sid := None) \<rparr>;
                  st2 = log_security_event now (Some req) ''session_destroyed''
                          (JDict [(''session_id'', JStr sid), (''user_id'', JStr uid)]) st1
              in ((JDict [(''success'', JBool True),
                          (''message'', JStr ''Logged out successfully'')], 200), st2))
         | None \<Rightarrow> ((JDict [(''error'', JStr ''Invalid session'')], 400), st))"

text \<open>The handler of \<open>/auth/validate\<close> turns the \<open>ValueError\<close> into a 401 answer.\<close>

definition validate_session_route ::
  "int \<Rightarrow> int \<Rightarrow> request \<Rightarrow> string option \<Rightarrow> security_service \<Rightarrow> response \<times> security_service" where
  "validate_session_route now1 now2 req body_id st =
     (case validate_session now1 now2 (request_session_id body_id req) st of
        (Inr s, st') \<Rightarrow>
          ((JDict [(''valid'', JBool True),
                   (''user_id'', JStr (user_id s)),
                   (''permissions'', JList (map JStr (permissions s))),
                   (''expires_at'', JInt (expires_at s))], 200), st')
      | (Inl (ValueError msg), st') \<Rightarrow>
          ((JDict [(''valid'', JBool False), (''error'', JStr msg)], 401), st'))"

text \<open>\<open>request.get_json() or {}\<close>: a falsy body is replaced by the empty dict.\<close>

fun py_truthy :: "json \<Rightarrow> bool" where
  "py_truthy JNull = False"
| "py_truthy (JBool b) = b"
| "py_truthy (JInt i) = (i \<noteq> 0)"
| "py_truthy (JFloat txt) = (txt \<noteq> ''0.0'' \<and> txt \<noteq> ''-0.0'')"
| "py_truthy (JStr s) = (s \<noteq> [])"
| "py_truthy (JList xs) = (xs \<noteq> [])"
| "py_truthy (JDict kvs) = (kvs \<noteq> [])"

definition analysis_json :: "threat_analysis \<Rightarrow> json" where
  "analysis_json a =
     JDict [(''threats_detected'', JList (map JStr (threats_detected a))),
            (''risk_score'', JInt (risk_score a)),
            (''action'', JStr (action a))]"

definition threat_scan ::
  "int \<Rightarrow> request \<Rightarrow> json \<Rightarrow> security_service \<Rightarrow> response \<times> security_service" where
  "threat_scan now req body st =
     (let data = (if py_truthy body then body else JDict []);
          threat_analysis = detect_threats data;
          st' = log_security_event now (Some req) ''threat_scan''
                  (analysis_json threat_analysis) st
      in ((JDict [(''success'', JBool True), (''analysis'', analysis_json threat_analysis)],
           200), st'))"

text \<open>
  \<open>xs[start:]\<close> as Python slices: a negative start counts from the end, and both ends
  are clamped to the list.
\<close>

definition py_slice_from :: "int \<Rightarrow> 'a list \<Rightarrow> 'a list" where
  "py_slice_from start xs =
     (let n = int (length xs);
          i = (if start < 0 then max (start + n) 0 else min start n)
      in drop (nat i) xs)"

record audit_events_response =
  success :: bool
  total_events :: int
  filtered_events :: int
  events :: "audit_event list"

text \<open>
  \<open>/audit/events\<close>: \<open>limit\<close> is the parsed query argument (\<open>None\<close> when it is absent or
  not an integer, which gives 100), \<open>ty\<close> the \<open>type\<close> argument; an empty type does not
  filter.
\<close>

definition get_audit_events ::
  "int option \<Rightarrow> string option \<Rightarrow> security_service \<Rightarrow> audit_events_response" where
  "get_audit_events limit_arg ty st =
     (let limit = (case limit_arg of None \<Rightarrow> 100 | Some l \<Rightarrow> l);
          evs = (case ty of
                   None \<Rightarrow> audit_log st
                 | Some t \<Rightarrow> if t \<noteq> [] then filter (\<lambda>e. event_type e = t) (audit_log st)
                             else audit_log st)
      in \<lparr> success = True,
           total_events = int (length (audit_log st)),
           filtered_events = int (length evs),
           events = py_slice_from (- limit) evs \<rparr>)"

section \<open>Properties of threat detection\<close>

text \<open>
  \<open>py_in\<close> is containment as a contiguous run: the text splits into a part before the
  needle, the needle, and a part after it.
\<close>

lemma is_prefix_iff: "is_prefix xs ys \<longleftrightarrow> (\<exists>zs. ys = xs @ zs)"
  by (induction xs ys rule: is_prefix.induct) auto

lemma py_in_iff: "py_in needle hay \<longleftrightarrow> (\<exists>pre suf. hay = pre @ needle @ suf)"
proof (induction hay)
  case Nil
  show ?case by (simp add: is_prefix_iff)
next
  case (Cons c cs)
  show ?case
  proof
    assume "py_in needle (c # cs)"
    then consider "is_prefix needle (c # cs)" | "py_in needle cs" by auto
    then show "\<exists>pre suf. c # cs = pre @ needle @ suf"
    proof cases
      case 1
      then obtain zs where "c # cs = needle @ zs" by (auto simp: is_prefix_iff)
      then have "c # cs = [] @ needle @ zs" by simp
      then show ?thesis by blast
    next
      case 2
      with Cons.IH obtain pre suf where "cs = pre @ needle @ suf" by blast
      then have "c # cs = (c # pre) @ needle @ suf" by simp
      then show ?thesis by blast
    qed
  next
    assume "\<exists>pre suf. c # cs = pre @ needle @ suf"
    then obtain pre suf where eq: "c # cs = pre @ needle @ suf" by blast
    show "py_in needle (c # cs)"
    proof (cases pre)
      case Nil
      with eq have "is_prefix needle (c # cs)" by (auto simp: is_prefix_iff)
      then show ?thesis by simp
    next
      case (Cons p ps)
      with eq have "cs = ps @ needle @ suf" by simp
      with Cons.IH have "py_in needle cs" by blast
      then show ?thesis by simp
    qed
  qed
qed

text \<open>
  C3. For every payload the risk score is the sum of the weights of the checks that fire:
  30 when the lower-cased text contains \<open>script\<close>, 50 when it contains both \<open>union\<close>
  and \<open>select\<close>, 20 when the text is longer than 10000 characters; the tags are listed
  in that order. The action is \<open>block\<close> above 70, \<open>monitor\<close> above 30 and up to 70,
  and \<open>allow\<close> otherwise.
\<close>

theorem detect_threats_score_and_action:
  "risk_score (detect_threats d) =
     (if py_in ''script'' (py_lower (py_str d)) then 30 else 0)
     + (if py_in ''union'' (py_lower (py_str d)) \<and> py_in ''select'' (py_lower (py_str d))
        then 50 else 0)
     + (if int (length (py_str d)) > 10000 then 20 else 0)
   \<and> threats_detected (detect_threats d) =
     (if py_in ''script'' (py_lower (py_str d)) then [''potential_xss''] else [])
     @ (if py_in ''union'' (py_lower (py_str d)) \<and> py_in ''select'' (py_lower (py_str d))
        then [''potential_sql_injection''] else [])
     @ (if int (length (py_str d)) > 10000 then [''oversized_request''] else [])
   \<and> (risk_score (detect_threats d) > 70 \<longrightarrow> action (detect_threats d) = ''block'')
   \<and> (30 < risk_score (detect_threats d) \<and> risk_score (detect_threats d) \<le> 70
        \<longrightarrow> action (detect_threats d) = ''monitor'')
   \<and> (risk_score (detect_threats d) \<le> 30 \<longrightarrow> action (detect_threats d) = ''allow'')"
  by (simp add: detect_threats_def Let_def)

theorem detect_threats_score_and_action_witness:
  "risk_score (detect_threats (JStr ''<script> UNION SELECT'')) = 80
   \<and> action (detect_threats (JStr ''<script> UNION SELECT'')) = ''block''
   \<and> risk_score (detect_threats (JStr ''Union Select'')) = 50
   \<and> action (detect_threats (JStr ''Union Select'')) = ''monitor''
   \<and> risk_score (detect_threats (JList [])) = 0
   \<and> action (detect_threats (JList [])) = ''allow''"
  using detect_threats_score_and_action [of "JStr ''<script> UNION SELECT''"]
        detect_threats_score_and_action [of "JStr ''Union Select''"]
        detect_threats_score_and_action [of "JList []"]
  by (simp add: py_lower_def lower_char_def char_of_def bit_0)

text \<open>
  C4, as stated: the payload \<open>{"q": "<script>alert(1)</script>"}\<close> gets the action
  \<open>monitor\<close>. It does not: its score is exactly 30, and \<open>monitor\<close> needs more than 30.
\<close>

theorem script_payload_action_not_monitor:
  "action (detect_threats (JDict [(''q'', JStr ''<script>alert(1)</script>'')])) \<noteq> ''monitor''"
  by (simp add: detect_threats_def Let_def str_repr_def repr_char_def printable_def
        py_lower_def lower_char_def)

text \<open>
  C4, amended: the payload \<open>{"q": "<script>alert(1)</script>"}\<close> gets a verdict whose
  only signal is the script indicator \<open>potential_xss\<close>, whose risk score is 30, and whose
  action is \<open>allow\<close>.
\<close>

theorem script_payload_verdict:
  "detect_threats (JDict [(''q'', JStr ''<script>alert(1)</script>'')]) =
     \<lparr> threats_detected = [''potential_xss''], risk_score = 30, action = ''allow'' \<rparr>"
  by (simp add: detect_threats_def Let_def str_repr_def repr_char_def printable_def
        py_lower_def lower_char_def)

text \<open>
  C10. For every payload the action is \<open>block\<close> exactly when the verdict carries both the
  script signal and the SQL-injection signal; a verdict without both has a risk score of
  at most 70.
\<close>

theorem block_iff_script_and_sql:
  "(action (detect_threats d) = ''block'') =
     (''potential_xss'' \<in> set (threats_detected (detect_threats d))
      \<and> ''potential_sql_injection'' \<in> set (threats_detected (detect_threats d)))
   \<and> (\<not> (''potential_xss'' \<in> set (threats_detected (detect_threats d))
          \<and> ''potential_sql_injection'' \<in> set (threats_detected (detect_threats d)))
        \<longrightarrow> risk_score (detect_threats d) \<le> 70)"
  by (simp add: detect_threats_def Let_def)

theorem block_iff_script_and_sql_witness:
  "action (detect_threats (JStr ''select 1 union select 2'')) \<noteq> ''block''
   \<and> ''potential_xss'' \<notin> set (threats_detected (detect_threats (JStr ''select 1 union select 2'')))
   \<and> risk_score (detect_threats (JStr ''select 1 union select 2'')) \<le> 70
   \<and> action (detect_threats (JStr ''<SCRIPT>select 1 union select 2'')) = ''block''"
  using block_iff_script_and_sql [of "JStr ''select 1 union select 2''"]
        block_iff_script_and_sql [of "JStr ''<SCRIPT>select 1 union select 2''"]
  by (simp add: detect_threats_def Let_def py_lower_def lower_char_def char_of_def bit_0)

section \<open>Properties of sessions\<close>

text \<open>
  C1. \<open>validate_session\<close> on an id that is not stored raises \<open>ValueError("Invalid session")\<close>
  and changes nothing. On a stored session whose deadline has passed it deletes the entry
  and raises \<open>ValueError("Session expired")\<close>, so that the next validation of the same id
  raises \<open>ValueError("Invalid session")\<close>. Otherwise it sets the session's last activity
  to the current time, stores that and returns the session.
\<close>

theorem validate_session_outcomes:
  "(sessions st sid = None \<longrightarrow>
      validate_session now1 now2 sid st = (Inl (ValueError ''Invalid session''), st))
   \<and> (\<forall>s. sessions st sid = Some s \<and> now1 > expires_at s \<longrightarrow>
         fst (validate_session now1 now2 sid st) = Inl (ValueError ''Session expired'')
       \<and> snd (validate_session now1 now2 sid st) = st\<lparr> sessions := (sessions st)(sid := None) \<rparr>
       \<and> fst (validate_session now3 now4 sid (snd (validate_session now1 now2 sid st)))
           = Inl (ValueError ''Invalid session''))
   \<and> (\<forall>s. sessions st sid = Some s \<and> \<not> now1 > expires_at s \<longrightarrow>
         fst (validate_session now1 now2 sid st) = Inr (s\<lparr> last_activity := now2 \<rparr>)
       \<and> snd (validate_session now1 now2 sid st)
           = st\<lparr> sessions := (sessions st)(sid \<mapsto> s\<lparr> last_activity := now2 \<rparr>) \<rparr>)"
  by (simp add: validate_session_def Let_def)

theorem validate_session_outcomes_witness:
  "fst (validate_session 5 6 ''tok'' init) = Inl (ValueError ''Invalid session'')
   \<and> fst (validate_session 3600000001 3600000002 ''tok''
            (snd (create_session ''tok'' 0 0 0 0 None ''alice'' None init)))
       = Inl (ValueError ''Session expired'')
   \<and> fst (validate_session 3600000003 3600000004 ''tok''
        (snd (validate_session 3600000001 3600000002 ''tok''
            (snd (create_session ''tok'' 0 0 0 0 None ''alice'' None init)))))
       = Inl (ValueError ''Invalid session'')
   \<and> fst (validate_session 3600000000 3600000005 ''tok''
            (snd (create_session ''tok'' 0 0 0 0 None ''alice'' None init)))
       = Inr \<lparr> session_id = ''tok'', user_id = ''alice'', permissions = [''read''],
               created_at = 0, expires_at = 3600000000, last_activity = 3600000005,
               ip_address = ''unknown'', user_agent = ''unknown'' \<rparr>"
proof -
  let ?st = "snd (create_session ''tok'' 0 0 0 0 None ''alice'' None init)"
  let ?s = "\<lparr> session_id = ''tok'', user_id = ''alice'', permissions = [''read''],
               created_at = 0, expires_at = 3600000000, last_activity = 0,
               ip_address = ''unknown'', user_agent = ''unknown'' \<rparr>"
  have absent: "sessions init ''tok'' = None"
    by (simp add: init_def)
  have stored: "sessions ?st ''tok'' = Some ?s"
    by (simp add: create_session_def init_def log_security_event_def origin_ip_def
          origin_agent_def Let_def)
  have late: "(3600000001::int) > expires_at ?s" and in_time: "\<not> (3600000000::int) > expires_at ?s"
    by simp_all
  from validate_session_outcomes [of init "''tok''" 5 6] absent
  have c1: "fst (validate_session 5 6 ''tok'' init) = Inl (ValueError ''Invalid session'')"
    by simp
  from validate_session_outcomes [of ?st "''tok''" 3600000001 3600000002 3600000003 3600000004]
    stored late
  have c2: "fst (validate_session 3600000001 3600000002 ''tok'' ?st)
              = Inl (ValueError ''Session expired'')
            \<and> fst (validate_session 3600000003 3600000004 ''tok''
                  (snd (validate_session 3600000001 3600000002 ''tok'' ?st)))
              = Inl (ValueError ''Invalid session'')"
    by blast
  from validate_session_outcomes [of ?st "''tok''" 3600000000 3600000005] stored in_time
  have c3: "fst (validate_session 3600000000 3600000005 ''tok'' ?st)
              = Inr (?s\<lparr> last_activity := 3600000005 \<rparr>)"
    by blast
  from c1 c2 c3 show ?thesis by simp
qed

text \<open>
  C5. A successful validation of a stored, unexpired session changes only its
  \<open>last_activity\<close>: the expiry deadline, the id, the user, the permissions, the creation
  time and the origin (address and agent) of the returned and stored session are those of
  the session before, and no other entry of the store changes.
\<close>

theorem validate_session_changes_only_last_activity:
  assumes "sessions st sid = Some s" and "\<not> now1 > expires_at s"
  shows "\<exists>s'. fst (validate_session now1 now2 sid st) = Inr s'
           \<and> sessions (snd (validate_session now1 now2 sid st)) sid = Some s'
           \<and> last_activity s' = now2
           \<and> expires_at s' = expires_at s
           \<and> session_id s' = session_id s
           \<and> user_id s' = user_id s
           \<and> permissions s' = permissions s
           \<and> created_at s' = created_at s
           \<and> ip_address s' = ip_address s
           \<and> user_agent s' = user_agent s
           \<and> (\<forall>k. k \<noteq> sid \<longrightarrow>
                 sessions (snd (validate_session now1 now2 sid st)) k = sessions st k)"
  using assms by (simp add: validate_session_def Let_def)

theorem validate_session_changes_only_last_activity_witness:
  "\<exists>s'. fst (validate_session 1000 2000 ''tok''
              (snd (create_session ''tok'' 0 0 0 0 None ''alice'' (Some [''admin'']) init))) = Inr s'
        \<and> last_activity s' = 2000 \<and> expires_at s' = 3600000000 \<and> created_at s' = 0
        \<and> permissions s' = [''admin'']"
proof -
  let ?st = "snd (create_session ''tok'' 0 0 0 0 None ''alice'' (Some [''admin'']) init)"
  let ?s = "\<lparr> session_id = ''tok'', user_id = ''alice'', permissions = [''admin''],
               created_at = 0, expires_at = 3600000000, last_activity = 0,
               ip_address = ''unknown'', user_agent = ''unknown'' \<rparr>"
  have stored: "sessions ?st ''tok'' = Some ?s"
    by (simp add: create_session_def init_def log_security_event_def origin_ip_def
          origin_agent_def Let_def)
  have in_time: "\<not> (1000::int) > expires_at ?s"
    by simp
  from validate_session_changes_only_last_activity [OF stored in_time, of 2000]
  show ?thesis by auto
qed

text \<open>
  C8. The session that \<open>create_session\<close> stores has a non-empty permission list: an
  omitted or empty argument is replaced by \<open>["read"]\<close>, and a non-empty argument is kept.
\<close>

theorem create_session_permissions_nonempty:
  "permissions (fst (create_session token now1 now2 now3 now4 req uid perms st)) \<noteq> []
   \<and> sessions (snd (create_session token now1 now2 now3 now4 req uid perms st)) token
       = Some (fst (create_session token now1 now2 now3 now4 req uid perms st))
   \<and> (perms = None \<or> perms = Some [] \<longrightarrow>
        permissions (fst (create_session token now1 now2 now3 now4 req uid perms st)) = [''read''])
   \<and> (\<forall>ps. perms = Some ps \<and> ps \<noteq> [] \<longrightarrow>
        permissions (fst (create_session token now1 now2 now3 now4 req uid perms st)) = ps)"
  by (auto simp add: create_session_def log_security_event_def Let_def split: option.splits)

theorem create_session_permissions_nonempty_witness:
  "permissions (fst (create_session ''t1'' 1 2 3 4 None ''bob'' None init)) = [''read'']
   \<and> permissions (fst (create_session ''t2'' 1 2 3 4 None ''bob'' (Some []) init)) = [''read'']
   \<and> permissions (fst (create_session ''t3'' 1 2 3 4 None ''bob'' (Some [''write'']) init))
       = [''write'']"
proof -
  from create_session_permissions_nonempty [of "''t1''" 1 2 3 4 None "''bob''" None init]
  have c1: "permissions (fst (create_session ''t1'' 1 2 3 4 None ''bob'' None init)) = [''read'']"
    by blast
  from create_session_permissions_nonempty [of "''t2''" 1 2 3 4 None "''bob''" "Some []" init]
  have c2: "permissions (fst (create_session ''t2'' 1 2 3 4 None ''bob'' (Some []) init)) = [''read'']"
    by blast
  have ne: "[''write''] \<noteq> ([] :: string list)"
    by simp
  from create_session_permissions_nonempty
         [of "''t3''" 1 2 3 4 None "''bob''" "Some [''write'']" init] ne
  have c3: "permissions (fst (create_session ''t3'' 1 2 3 4 None ''bob'' (Some [''write'']) init))
              = [''write'']"
    by blast
  from c1 c2 c3 show ?thesis by simp
qed

section \<open>Properties of login and logout\<close>

text \<open>
  C9. For every user name and every password at least as long as the policy's minimum
  length, \<open>login\<close> answers with success and stores a session for that user under the new
  token. The password's content plays no part: any two passwords of sufficient length
  give the same answer and the same state.
\<close>

theorem login_accepts_any_long_password:
  assumes "int (length pw) \<ge> password_min_length (policies st)"
  shows "(\<exists>s. sessions (snd (login token now1 now2 now3 now4 req
                  (Some \<lparr> username = Some uname, password = Some pw,
                          requested_permissions = rp \<rparr>) st)) token = Some s
              \<and> user_id s = uname
              \<and> session_id s = token
              \<and> fst (login token now1 now2 now3 now4 req
                  (Some \<lparr> username = Some uname, password = Some pw,
                          requested_permissions = rp \<rparr>) st)
                  = (JDict [(''success'', JBool True),
                            (''session_id'', JStr token),
                            (''expires_at'', JInt (expires_at s)),
                            (''permissions'', JList (map JStr (permissions s)))], 200))
         \<and> (\<forall>pw'. int (length pw') \<ge> password_min_length (policies st) \<longrightarrow>
               login token now1 now2 now3 now4 req
                 (Some \<lparr> username = Some uname, password = Some pw',
                         requested_permissions = rp \<rparr>) st
               = login token now1 now2 now3 now4 req
                 (Some \<lparr> username = Some uname, password = Some pw,
                         requested_permissions = rp \<rparr>) st)"
  using assms
  by (simp add: login_def create_session_def log_security_event_def Let_def)

theorem login_accepts_any_long_password_witness:
  "fst (login ''tok'' 0 0 0 0 \<lparr> remote_addr = ''10.0.0.1'', header_user_agent = None,
                               header_authorization = None \<rparr>
          (Some \<lparr> username = Some ''root'', password = Some ''12345678'',
                  requested_permissions = Some (Some [''admin'']) \<rparr>) init)
     = (JDict [(''success'', JBool True),
               (''session_id'', JStr ''tok''),
               (''expires_at'', JInt 3600000000),
               (''permissions'', JList [JStr ''admin''])], 200)
   \<and> login ''tok'' 0 0 0 0 \<lparr> remote_addr = ''10.0.0.1'', header_user_agent = None,
                               header_authorization = None \<rparr>
          (Some \<lparr> username = Some ''root'', password = Some ''aaaaaaaaa'',
                  requested_permissions = Some (Some [''admin'']) \<rparr>) init
     = login ''tok'' 0 0 0 0 \<lparr> remote_addr = ''10.0.0.1'', header_user_agent = None,
                               header_authorization = None \<rparr>
          (Some \<lparr> username = Some ''root'', password = Some ''12345678'',
                  requested_permissions = Some (Some [''admin'']) \<rparr>) init"
proof -
  let ?req = "\<lparr> remote_addr = ''10.0.0.1'', header_user_agent = None,
                 header_authorization = None \<rparr>"
  have long: "int (length ''12345678'') \<ge> password_min_length (policies init)"
    by (simp add: init_def)
  have long': "int (length ''aaaaaaaaa'') \<ge> password_min_length (policies init)"
    by (simp add: init_def)
  have stored: "sessions (snd (login ''tok'' 0 0 0 0 ?req
          (Some \<lparr> username = Some ''root'', password = Some ''12345678'',
                  requested_permissions = Some (Some [''admin'']) \<rparr>) init)) ''tok''
      = Some \<lparr> session_id = ''tok'', user_id = ''root'', permissions = [''admin''],
               created_at = 0, expires_at = 3600000000, last_activity = 0,
               ip_address = ''10.0.0.1'', user_agent = ''unknown'' \<rparr>"
    by (simp add: login_def create_session_def log_security_event_def init_def
          origin_ip_def origin_agent_def Let_def)
  from login_accepts_any_long_password
         [OF long, of "''tok''" 0 0 0 0 ?req "''root''" "Some (Some [''admin''])"]
    stored long'
  show ?thesis by auto
qed

text \<open>
  C2, as stated: a validation that fails with \<open>Session expired\<close> appends an audit event.
  It does not: the audit log after the failed validation is the log before it.
\<close>

theorem expired_validate_appends_no_audit_event:
  "fst (validate_session 3600000001 3600000002 ''tok''
         (snd (create_session ''tok'' 0 0 0 0 None ''alice'' None init)))
     = Inl (ValueError ''Session expired'')
   \<and> audit_log (snd (validate_session 3600000001 3600000002 ''tok''
         (snd (create_session ''tok'' 0 0 0 0 None ''alice'' None init))))
     = audit_log (snd (create_session ''tok'' 0 0 0 0 None ''alice'' None init))"
  by (simp add: validate_session_def create_session_def log_security_event_def init_def Let_def)

text \<open>
  C2, amended: a login whose password is shorter than the policy's minimum length answers
  401 \<open>Authentication failed\<close> and appends a \<open>login_failed\<close> audit event; every threat
  scan, whatever its verdict, appends a \<open>threat_scan\<close> audit event that carries the
  verdict; \<open>validate_session\<close> never appends an audit event, whether it fails or not.
\<close>

theorem audit_on_failure_paths:
  "(int (length pw) < password_min_length (policies st) \<longrightarrow>
      login token now1 now2 now3 now4 req
        (Some \<lparr> username = Some uname, password = Some pw, requested_permissions = rp \<rparr>) st
      = ((JDict [(''error'', JStr ''Authentication failed'')], 401),
         st\<lparr> audit_log := audit_log st @
              [make_event now1 (Some req) ''login_failed''
                 (JDict [(''username'', JStr uname), (''reason'', JStr ''weak_password'')])] \<rparr>))
   \<and> audit_log (snd (threat_scan now req body st))
       = audit_log st @
           [make_event now (Some req) ''threat_scan''
              (analysis_json (detect_threats (if py_truthy body then body else JDict [])))]
   \<and> audit_log (snd (validate_session now1 now2 sid st)) = audit_log st"
  by (simp add: login_def threat_scan_def validate_session_def log_security_event_def Let_def
        split: option.splits)

theorem audit_on_failure_paths_witness:
  "login ''tok'' 7 8 9 10 \<lparr> remote_addr = ''10.0.0.1'', header_user_agent = None,
                               header_authorization = None \<rparr>
        (Some \<lparr> username = Some ''alice'', password = Some ''short'',
                requested_permissions = Some (Some []) \<rparr>) init
      = ((JDict [(''error'', JStr ''Authentication failed'')], 401),
         init\<lparr> audit_log :=
              [\<lparr> timestamp = 7, event_type = ''login_failed'',
                 details = JDict [(''username'', JStr ''alice''), (''reason'', JStr ''weak_password'')],
                 event_ip_address = ''10.0.0.1'', event_user_agent = ''unknown'' \<rparr>] \<rparr>)"
proof -
  let ?req = "\<lparr> remote_addr = ''10.0.0.1'', header_user_agent = None,
                 header_authorization = None \<rparr>"
  have short: "int (length ''short'') < password_min_length (policies init)"
    by (simp add: init_def)
  from audit_on_failure_paths
         [of "''short''" init "''tok''" 7 8 9 10 ?req "''alice''" "Some (Some [])"] short
  have "login ''tok'' 7 8 9 10 ?req
        (Some \<lparr> username = Some ''alice'', password = Some ''short'',
                requested_permissions = Some (Some []) \<rparr>) init
      = ((JDict [(''error'', JStr ''Authentication failed'')], 401),
         init\<lparr> audit_log := audit_log init @
              [make_event 7 (Some ?req) ''login_failed''
                 (JDict [(''username'', JStr ''alice''), (''reason'', JStr ''weak_password'')])] \<rparr>)"
    by blast
  then show ?thesis
    by (simp add: make_event_def origin_ip_def origin_agent_def init_def)
qed

text \<open>
  C6, as stated: a second logout right after a successful logout of the same id returns
  false and reports no error. It does not: the answer is the error body
  \<open>{"error": "Invalid session"}\<close> with status 400.
\<close>

theorem second_logout_reports_error:
  "fst (logout 20 \<lparr> remote_addr = ''10.0.0.1'', header_user_agent = None,
                    header_authorization = None \<rparr> (Some ''tok'')
         (snd (logout 10 \<lparr> remote_addr = ''10.0.0.1'', header_user_agent = None,
                    header_authorization = None \<rparr> (Some ''tok'')
            (snd (create_session ''tok'' 0 0 0 0 None ''alice'' None init)))))
     = (JDict [(''error'', JStr ''Invalid session'')], 400)"
  by (simp add: logout_def request_session_id_def create_session_def log_security_event_def
        init_def Let_def)

text \<open>
  C6, amended: for an id with no stored session \<open>logout\<close> changes nothing and answers
  with the error body \<open>{"error": "Invalid session"}\<close> and status 400. For a stored
  session it removes the entry, appends a \<open>session_destroyed\<close> audit event and answers
  with success; a second logout of the same id then changes nothing and answers with the
  same error body and status 400.
\<close>

theorem logout_outcomes:
  "(sessions st (request_session_id body_id req) = None \<longrightarrow>
      logout now req body_id st = ((JDict [(''error'', JStr ''Invalid session'')], 400), st))
   \<and> (\<forall>s. sessions st (request_session_id body_id req) = Some s \<longrightarrow>
         fst (logout now req body_id st)
           = (JDict [(''success'', JBool True), (''message'', JStr ''Logged out successfully'')], 200)
       \<and> sessions (snd (logout now req body_id st))
           = (sessions st)(request_session_id body_id req := None)
       \<and> audit_log (snd (logout now req body_id st))
           = audit_log st @
               [make_event now (Some req) ''session_destroyed''
                  (JDict [(''session_id'', JStr (request_session_id body_id req)),
                          (''user_id'', JStr (user_id s))])]
       \<and> logout now' req body_id (snd (logout now req body_id st))
           = ((JDict [(''error'', JStr ''Invalid session'')], 400),
              snd (logout now req body_id st)))"
  by (simp add: logout_def log_security_event_def Let_def)

theorem logout_outcomes_witness:
  "logout 5 \<lparr> remote_addr = ''10.0.0.1'', header_user_agent = None,
               header_authorization = Some ''Bearer nope'' \<rparr> None init
     = ((JDict [(''error'', JStr ''Invalid session'')], 400), init)
   \<and> fst (logout 10 \<lparr> remote_addr = ''10.0.0.1'', header_user_agent = None,
                    header_authorization = Some ''Bearer tok'' \<rparr> None
            (snd (create_session ''tok'' 0 0 0 0 None ''alice'' None init)))
     = (JDict [(''success'', JBool True), (''message'', JStr ''Logged out successfully'')], 200)
   \<and> sessions (snd (logout 10 \<lparr> remote_addr = ''10.0.0.1'', header_user_agent = None,
                    header_authorization = Some ''Bearer tok'' \<rparr> None
            (snd (create_session ''tok'' 0 0 0 0 None ''alice'' None init)))) ''tok'' = None
   \<and> fst (logout 20 \<lparr> remote_addr = ''10.0.0.1'', header_user_agent = None,
                    header_authorization = Some ''Bearer tok'' \<rparr> None
         (snd (logout 10 \<lparr> remote_addr = ''10.0.0.1'', header_user_agent = None,
                    header_authorization = Some ''Bearer tok'' \<rparr> None
            (snd (create_session ''tok'' 0 0 0 0 None ''alice'' None init)))))
     = (JDict [(''error'', JStr ''Invalid session'')], 400)"
proof -
  let ?nope = "\<lparr> remote_addr = ''10.0.0.1'', header_user_agent = None,
                  header_authorization = Some ''Bearer nope'' \<rparr>"
  let ?req = "\<lparr> remote_addr = ''10.0.0.1'', header_user_agent = None,
                 header_authorization = Some ''Bearer tok'' \<rparr>"
  let ?st = "snd (create_session ''tok'' 0 0 0 0 None ''alice'' None init)"
  let ?s = "\<lparr> session_id = ''tok'', user_id = ''alice'', permissions = [''read''],
               created_at = 0, expires_at = 3600000000, last_activity = 0,
               ip_address = ''unknown'', user_agent = ''unknown'' \<rparr>"
  have id_nope: "request_session_id None ?nope = ''nope''"
    by (simp add: request_session_id_def)
  have id_tok: "request_session_id None ?req = ''tok''"
    by (simp add: request_session_id_def)
  have absent: "sessions init (request_session_id None ?nope) = None"
    by (simp add: init_def)
  have stored: "sessions ?st (request_session_id None ?req) = Some ?s"
    by (simp add: id_tok create_session_def init_def log_security_event_def origin_ip_def
          origin_agent_def Let_def)
  from logout_outcomes [of init None ?nope 5] absent
  have c1: "logout 5 ?nope None init = ((JDict [(''error'', JStr ''Invalid session'')], 400), init)"
    by blast
  from logout_outcomes [of ?st None ?req 10 20] stored
  have c2: "fst (logout 10 ?req None ?st)
              = (JDict [(''success'', JBool True), (''message'', JStr ''Logged out successfully'')], 200)
            \<and> sessions (snd (logout 10 ?req None ?st)) = (sessions ?st)(request_session_id None ?req := None)
            \<and> logout 20 ?req None (snd (logout 10 ?req None ?st))
              = ((JDict [(''error'', JStr ''Invalid session'')], 400), snd (logout 10 ?req None ?st))"
    by blast
  from c1 c2 show ?thesis
    by (simp add: id_tok)
qed

section \<open>Properties of the audit log\<close>

text \<open>Appending events one after the other extends the log by them, in order.\<close>

lemma audit_log_fold_log_security_event:
  "audit_log (fold (\<lambda>(now, req, ty, d). log_security_event now req ty d) calls st)
     = audit_log st @ map (\<lambda>(now, req, ty, d). make_event now req ty d) calls"
  by (induction calls arbitrary: st) (auto simp: log_security_event_def)

text \<open>A slice that starts as many places from the end as the list is long is the whole list.\<close>

lemma py_slice_from_last_all: "py_slice_from (- int (length xs)) xs = xs"
  by (simp add: py_slice_from_def Let_def)

text \<open>
  C7. Starting from an empty audit log, after N calls of \<open>log_security_event\<close> the query
  with limit N and no type filter returns exactly the N appended events, in the order of
  the calls.
\<close>

theorem audit_round_trip:
  assumes "audit_log st = []"
  shows "events (get_audit_events (Some (int (length calls))) None
           (fold (\<lambda>(now, req, ty, d). log_security_event now req ty d) calls st))
         = map (\<lambda>(now, req, ty, d). make_event now req ty d) calls
         \<and> length (events (get_audit_events (Some (int (length calls))) None
           (fold (\<lambda>(now, req, ty, d). log_security_event now req ty d) calls st)))
         = length calls"
proof -
  let ?st' = "fold (\<lambda>(now, req, ty, d). log_security_event now req ty d) calls st"
  let ?evs = "map (\<lambda>(now, req, ty, d). make_event now req ty d) calls"
  have log: "audit_log ?st' = ?evs"
    using assms by (simp add: audit_log_fold_log_security_event)
  have len: "int (length calls) = int (length ?evs)"
    by simp
  have "events (get_audit_events (Some (int (length calls))) None ?st')
          = py_slice_from (- int (length ?evs)) ?evs"
    unfolding get_audit_events_def Let_def log len by simp
  then have "events (get_audit_events (Some (int (length calls))) None ?st') = ?evs"
    by (simp only: py_slice_from_last_all)
  then show ?thesis by simp
qed

theorem audit_round_trip_witness:
  "events (get_audit_events (Some 2) None
     (fold (\<lambda>(now, req, ty, d). log_security_event now req ty d)
        [(1, None, ''login_failed'', JNull), (2, None, ''threat_scan'', JInt 5)] init))
   = [\<lparr> timestamp = 1, event_type = ''login_failed'', details = JNull,
         event_ip_address = ''unknown'', event_user_agent = ''unknown'' \<rparr>,
      \<lparr> timestamp = 2, event_type = ''threat_scan'', details = JInt 5,
         event_ip_address = ''unknown'', event_user_agent = ''unknown'' \<rparr>]"
proof -
  have empty: "audit_log init = []"
    by (simp add: init_def)
  from audit_round_trip [OF empty,
         of "[(1, None, ''login_failed'', JNull), (2, None, ''threat_scan'', JInt 5)]"]
  show ?thesis
    by (simp add: make_event_def origin_ip_def origin_agent_def)
qed

end
